theory Spec2Isabelle
  imports Complex_Main "HOL-Library.Multiset"
begin

section \<open>Data model\<close>

text \<open>
  Python values that can occur as a metadata value of a triple: \<open>None\<close>, a
  \<open>bool\<close>, an \<open>int\<close> or a \<open>str\<close>.
\<close>

datatype pyval = PNone | PBool bool | PInt int | PStr string

text \<open>
  Modelled from the spec: the class \<open>EvalSample\<close> of \<open>eval_loader.py\<close>, which is
  imported by \<open>triple_generator.py\<close> but is not part of the sources at hand. The fields
  are the ones the spec lists and the ones \<open>triple_generator.py\<close> reads; the identifier
  is opaque, every other field is text (\<open>is_correct\<close> a flag); the field
  \<open>experiment\<close> is written \<open>experiment_tag\<close>, the name being reserved here.
\<close>

record EvalSample =
  sample_id :: pyval
  prompt :: string
  reasoning :: string
  answer :: string
  target :: string
  is_correct :: bool
  evaluator_model :: string
  generator_model :: string
  dataset :: string
  experiment_tag :: string

text \<open>
  The dataclass \<open>DPOTriple\<close>. Its \<open>metadata\<close> is a Python \<open>dict\<close>, which keeps the
  order of insertion: an association list, keys in the order the dict literal writes them.
\<close>

record DPOTriple =
  prompt :: string
  chosen :: string
  rejected :: string
  metadata :: "(string \<times> pyval) list"

section \<open>Formatting a response\<close>

text \<open>
  \<open>format_response\<close>: the f-string \<open>"{reasoning}\n\nAnswer: {answer}"\<close> when reasoning
  is wanted and the sample's reasoning is truthy (a non-empty \<open>str\<close>), the answer alone
  otherwise.
\<close>

definition newline :: char where
  "newline = CHR 0x0A"

definition format_response :: "EvalSample \<Rightarrow> bool \<Rightarrow> string" where
  "format_response sample include_reasoning =
     (if include_reasoning \<and> reasoning sample \<noteq> []
      then reasoning sample @ [newline, newline] @ ''Answer: '' @ answer sample
      else answer sample)"

section \<open>Pairing samples into triples\<close>

text \<open>
  \<open>categorize_sample\<close> belongs to \<open>eval_loader.py\<close>, which is not part of the sources
  at hand: it is a parameter of the model, any function from samples to the category tag
  (a Python \<open>str\<close>). The first loop of \<open>create_dpo_triples\<close> appends a sample to
  \<open>correct_samples\<close> when its tag is in \<open>["TP", "TN"]\<close> and to \<open>incorrect_samples\<close>
  otherwise.
\<close>

fun categorize_loop ::
  "(EvalSample \<Rightarrow> string) \<Rightarrow> EvalSample list \<Rightarrow> EvalSample list \<times> EvalSample list
     \<Rightarrow> EvalSample list \<times> EvalSample list" where
  "categorize_loop categorize_sample [] (correct_samples, incorrect_samples) =
     (correct_samples, incorrect_samples)"
| "categorize_loop categorize_sample (sample # rest) (correct_samples, incorrect_samples) =
     (if categorize_sample sample \<in> set [''TP'', ''TN'']
      then categorize_loop categorize_sample rest (correct_samples @ [sample], incorrect_samples)
      else categorize_loop categorize_sample rest (correct_samples, incorrect_samples @ [sample]))"

text \<open>
  A \<open>defaultdict(list)\<close> keyed by prompt: an association list in insertion order, each
  key once. \<open>d[k].append(v)\<close> extends the list of an existing key where it stands and
  enters a new key at the end; \<open>k in d\<close> tests the keys; \<open>d[k]\<close> reads the list of a
  key. A read of a missing key gives the empty default (and would enter the key); the two
  reads of \<open>create_dpo_triples\<close> are of keys that are present.
\<close>

type_synonym 'v defaultdict = "(string \<times> 'v list) list"

fun dd_append :: "'v defaultdict \<Rightarrow> string \<Rightarrow> 'v \<Rightarrow> 'v defaultdict" where
  "dd_append [] k v = [(k, [v])]"
| "dd_append ((k', vs) # d) k v =
     (if k' = k then (k', vs @ [v]) # d else (k', vs) # dd_append d k v)"

definition dd_contains :: "'v defaultdict \<Rightarrow> string \<Rightarrow> bool" where
  "dd_contains d k = (k \<in> set (map fst d))"

definition dd_getitem :: "'v defaultdict \<Rightarrow> string \<Rightarrow> 'v list" where
  "dd_getitem d k = (case map_of d k of None \<Rightarrow> [] | Some vs \<Rightarrow> vs)"

text \<open>\<open>for sample in samples: by_prompt[sample.prompt].append(sample)\<close>\<close>

fun group_loop :: "EvalSample list \<Rightarrow> EvalSample defaultdict \<Rightarrow> EvalSample defaultdict" where
  "group_loop [] by_prompt = by_prompt"
| "group_loop (sample # rest) by_prompt =
     group_loop rest (dd_append by_prompt (EvalSample.prompt sample) sample)"

text \<open>The triple built in same-prompt mode (lines 108 to 123).\<close>

definition same_prompt_triple ::
  "(EvalSample \<Rightarrow> string) \<Rightarrow> bool \<Rightarrow> string \<Rightarrow> EvalSample \<Rightarrow> EvalSample \<Rightarrow> DPOTriple" where
  "same_prompt_triple categorize_sample include_reasoning p correct_sample incorrect_sample =
     \<lparr>prompt = p,
      chosen = format_response correct_sample include_reasoning,
      rejected = format_response incorrect_sample include_reasoning,
      metadata =
        [(''chosen_sample_id'', sample_id correct_sample),
         (''rejected_sample_id'', sample_id incorrect_sample),
         (''chosen_category'', PStr (categorize_sample correct_sample)),
         (''rejected_category'', PStr (categorize_sample incorrect_sample)),
         (''evaluator_model'', PStr (evaluator_model correct_sample)),
         (''chosen_generator'', PStr (generator_model correct_sample)),
         (''rejected_generator'', PStr (generator_model incorrect_sample)),
         (''dataset'', PStr (dataset correct_sample)),
         (''experiment'', PStr (experiment_tag correct_sample))]\<rparr>"

text \<open>The triple built in cross mode (lines 131 to 147).\<close>

definition cross_triple ::
  "(EvalSample \<Rightarrow> string) \<Rightarrow> bool \<Rightarrow> EvalSample \<Rightarrow> EvalSample \<Rightarrow> DPOTriple" where
  "cross_triple categorize_sample include_reasoning correct_sample incorrect_sample =
     \<lparr>prompt = EvalSample.prompt correct_sample,
      chosen = format_response correct_sample include_reasoning,
      rejected = format_response incorrect_sample include_reasoning,
      metadata =
        [(''chosen_sample_id'', sample_id correct_sample),
         (''rejected_sample_id'', sample_id incorrect_sample),
         (''chosen_category'', PStr (categorize_sample correct_sample)),
         (''rejected_category'', PStr (categorize_sample incorrect_sample)),
         (''evaluator_model'', PStr (evaluator_model correct_sample)),
         (''chosen_generator'', PStr (generator_model correct_sample)),
         (''rejected_generator'', PStr (generator_model incorrect_sample)),
         (''dataset'', PStr (dataset correct_sample)),
         (''experiment'', PStr (experiment_tag correct_sample)),
         (''prompt_mismatch'',
            PBool (EvalSample.prompt correct_sample \<noteq> EvalSample.prompt incorrect_sample))]\<rparr>"

text \<open>
  The innermost loop, \<open>for incorrect_sample in ...: triples.append(triple)\<close>, and the
  loop over the correct samples around it; \<open>mk\<close> is the triple built from a pair.
\<close>

fun incorrect_loop ::
  "(EvalSample \<Rightarrow> DPOTriple) \<Rightarrow> EvalSample list \<Rightarrow> DPOTriple list \<Rightarrow> DPOTriple list" where
  "incorrect_loop mk [] triples = triples"
| "incorrect_loop mk (incorrect_sample # rest) triples =
     incorrect_loop mk rest (triples @ [mk incorrect_sample])"

fun correct_loop ::
  "(EvalSample \<Rightarrow> EvalSample \<Rightarrow> DPOTriple) \<Rightarrow> EvalSample list \<Rightarrow> EvalSample list
     \<Rightarrow> DPOTriple list \<Rightarrow> DPOTriple list" where
  "correct_loop mk [] incorrect_samples triples = triples"
| "correct_loop mk (correct_sample # rest) incorrect_samples triples =
     correct_loop mk rest incorrect_samples
       (incorrect_loop (mk correct_sample) incorrect_samples triples)"

text \<open>
  \<open>for prompt in correct_by_prompt\<close> (lines 101 to 124): the keys in insertion order; a
  key that is not in \<open>incorrect_by_prompt\<close> is skipped by \<open>continue\<close>.
\<close>

fun prompt_loop ::
  "(EvalSample \<Rightarrow> string) \<Rightarrow> bool \<Rightarrow> EvalSample defaultdict \<Rightarrow> EvalSample defaultdict
     \<Rightarrow> string list \<Rightarrow> DPOTriple list \<Rightarrow> DPOTriple list" where
  "prompt_loop categorize_sample include_reasoning correct_by_prompt incorrect_by_prompt
       [] triples = triples"
| "prompt_loop categorize_sample include_reasoning correct_by_prompt incorrect_by_prompt
       (p # rest) triples =
     (if \<not> dd_contains incorrect_by_prompt p
      then prompt_loop categorize_sample include_reasoning correct_by_prompt
             incorrect_by_prompt rest triples
      else prompt_loop categorize_sample include_reasoning correct_by_prompt
             incorrect_by_prompt rest
             (correct_loop (same_prompt_triple categorize_sample include_reasoning p)
                (dd_getitem correct_by_prompt p) (dd_getitem incorrect_by_prompt p) triples))"

definition create_dpo_triples ::
  "(EvalSample \<Rightarrow> string) \<Rightarrow> EvalSample list \<Rightarrow> bool \<Rightarrow> bool \<Rightarrow> DPOTriple list" where
  "create_dpo_triples categorize_sample samples include_reasoning require_same_prompt =
     (let (correct_samples, incorrect_samples) =
            categorize_loop categorize_sample samples ([], [])
      in if require_same_prompt
         then let correct_by_prompt = group_loop correct_samples [];
                  incorrect_by_prompt = group_loop incorrect_samples []
              in prompt_loop categorize_sample include_reasoning correct_by_prompt
                   incorrect_by_prompt (map fst correct_by_prompt) []
         else correct_loop (cross_triple categorize_sample include_reasoning)
                correct_samples incorrect_samples [])"

section \<open>Splitting into training and validation sets\<close>

text \<open>
  \<open>split_triples\<close> works on two pieces of state that outlive the call: the list object
  its argument refers to, which the caller still holds, and the generator hidden in the
  module \<open>random\<close>, which \<open>random.seed\<close> and \<open>random.shuffle\<close> read and write and which
  every other user of the module shares. A process is the list objects of the heap, a
  reference being the position of the object, and the state of that generator. A
  reference a caller holds is the position of an object of the heap.
\<close>

type_synonym ref = nat

record ('a, 'g) process =
  heap_lists :: "'a list list"
  random_state :: 'g

definition deref :: "('a, 'g) process \<Rightarrow> ref \<Rightarrow> 'a list" where
  "deref w r = heap_lists w ! r"

text \<open>\<open>xs.copy()\<close>: a new list object with the same elements.\<close>

definition list_copy :: "ref \<Rightarrow> ('a, 'g) process \<Rightarrow> ref \<times> ('a, 'g) process" where
  "list_copy r w = (length (heap_lists w), w\<lparr>heap_lists := heap_lists w @ [deref w r]\<rparr>)"

text \<open>
  The module \<open>random\<close> is the standard library's. Of its generator the model keeps two
  operations over a state type \<open>'g\<close>: the state \<open>random.seed(n)\<close> sets, and the draw
  \<open>_randbelow(n)\<close>, which returns a number below \<open>n\<close> and the next state. The library
  promises \<open>0 \<le> _randbelow(n) < n\<close>; the model takes any draw function and reduces its
  number modulo \<open>n\<close>, which changes nothing on a function that keeps the promise.
\<close>

record 'g random_module =
  seed_state :: "int \<Rightarrow> 'g"
  raw_below :: "'g \<Rightarrow> nat \<Rightarrow> nat \<times> 'g"

definition randbelow :: "'g random_module \<Rightarrow> 'g \<Rightarrow> nat \<Rightarrow> nat \<times> 'g" where
  "randbelow R g n = (fst (raw_below R g n) mod n, snd (raw_below R g n))"

text \<open>
  \<open>random.shuffle(x)\<close>, the library's loop
  \<^verbatim>\<open>for i in reversed(range(1, len(x))): j = randbelow(i + 1); x[i], x[j] = x[j], x[i]\<close>
  The counter of \<open>shuffle_loop\<close> is \<open>i\<close>, running from \<open>len(x) - 1\<close> down to 1.
\<close>

fun shuffle_loop :: "'g random_module \<Rightarrow> nat \<Rightarrow> 'a list \<Rightarrow> 'g \<Rightarrow> 'a list \<times> 'g" where
  "shuffle_loop R 0 x g = (x, g)"
| "shuffle_loop R (Suc k) x g =
     (let (j, g') = randbelow R g (Suc k + 1)
      in shuffle_loop R k ((x[Suc k := x ! j])[j := x ! Suc k]) g')"

definition shuffle :: "'g random_module \<Rightarrow> 'a list \<Rightarrow> 'g \<Rightarrow> 'a list \<times> 'g" where
  "shuffle R x g = shuffle_loop R (length x - 1) x g"

text \<open>\<open>random.shuffle(r)\<close> on a list object: in place, advancing the shared generator.\<close>

definition random_shuffle ::
  "'g random_module \<Rightarrow> ref \<Rightarrow> ('a, 'g) process \<Rightarrow> ('a, 'g) process" where
  "random_shuffle R r w =
     (let (x', g') = shuffle R (deref w r) (random_state w)
      in w\<lparr>heap_lists := (heap_lists w)[r := x'], random_state := g'\<rparr>)"

text \<open>
  \<open>int(x)\<close> of a float truncates towards zero. A (finite) float is modelled as the real
  number it stands for. \<open>len(shuffled) * train_ratio\<close> is a float product, the exact
  product rounded to a float: the rounded product is the parameter \<open>float_mul\<close> of the
  model, of which the exact product \<open>exact_mul\<close> is one instance.
\<close>

definition py_int :: "real \<Rightarrow> int" where
  "py_int x = (if 0 \<le> x then \<lfloor>x\<rfloor> else \<lceil>x\<rceil>)"

definition exact_mul :: "nat \<Rightarrow> real \<Rightarrow> real" where
  "exact_mul n x = real n * x"

text \<open>
  The slices \<open>xs[:k]\<close> and \<open>xs[k:]\<close>: a negative bound counts from the end, and a bound
  beyond either end is clipped.
\<close>

definition slice_to :: "int \<Rightarrow> 'a list \<Rightarrow> 'a list" where
  "slice_to k xs = (if 0 \<le> k then take (nat k) xs else take (nat (int (length xs) + k)) xs)"

definition slice_from :: "int \<Rightarrow> 'a list \<Rightarrow> 'a list" where
  "slice_from k xs = (if 0 \<le> k then drop (nat k) xs else drop (nat (int (length xs) + k)) xs)"

text \<open>
  \<open>split_triples(triples, train_ratio, val_ratio, seed)\<close>. The two slices are new lists
  handed to the caller; the model returns their elements, and the process after the call.
\<close>

definition split_triples ::
  "'g random_module \<Rightarrow> (nat \<Rightarrow> real \<Rightarrow> real) \<Rightarrow> ref \<Rightarrow> real \<Rightarrow> real \<Rightarrow> int option
     \<Rightarrow> ('a, 'g) process \<Rightarrow> ('a list \<times> 'a list) \<times> ('a, 'g) process" where
  "split_triples R float_mul triples train_ratio val_ratio seed w =
     (let w1 = (case seed of None \<Rightarrow> w | Some n \<Rightarrow> w\<lparr>random_state := seed_state R n\<rparr>);
          (shuffled, w2) = list_copy triples w1;
          w3 = random_shuffle R shuffled w2;
          train_size = py_int (float_mul (length (deref w3 shuffled)) train_ratio);
          train_triples = slice_to train_size (deref w3 shuffled);
          val_triples = slice_from train_size (deref w3 shuffled)
      in ((train_triples, val_triples), w3))"

text \<open>
  A small linear congruential generator. It stands in for the library's generator where
  a call is evaluated on a concrete process; the general theorems hold for every
  generator.
\<close>

definition lcg :: "nat random_module" where
  "lcg = \<lparr>seed_state = (\<lambda>n. nat \<bar>n\<bar> mod 16),
          raw_below = (\<lambda>g n. (g, (5 * g + 3) mod 16))\<rparr>"

section \<open>Saving triples as JSON lines\<close>




















section \<open>Reading JSON lines back\<close>





















section \<open>Notions of the specification and example data\<close>

text \<open>
  The two partitions of the input as the first loop of \<open>create_dpo_triples\<close> forms them:
  the samples of category TP or TN, and all the others (FP and FN for a categorizer that
  returns one of the four tags), each in input order; and the samples of a list that
  carry a given prompt.
\<close>

definition acceptable :: "(EvalSample \<Rightarrow> string) \<Rightarrow> EvalSample list \<Rightarrow> EvalSample list" where
  "acceptable categorize_sample samples =
     filter (\<lambda>s. categorize_sample s = ''TP'' \<or> categorize_sample s = ''TN'') samples"

definition unacceptable :: "(EvalSample \<Rightarrow> string) \<Rightarrow> EvalSample list \<Rightarrow> EvalSample list" where
  "unacceptable categorize_sample samples =
     filter (\<lambda>s. \<not> (categorize_sample s = ''TP'' \<or> categorize_sample s = ''TN'')) samples"

definition with_prompt :: "string \<Rightarrow> EvalSample list \<Rightarrow> EvalSample list" where
  "with_prompt p samples = filter (\<lambda>s. EvalSample.prompt s = p) samples"


text \<open>
  Data for evaluating calls: a categorizer that reads the correctness flag, four samples
  (two judged correct, two not, all on the prompt \<open>P\<close>; \<open>sample_q\<close> is a correct one on
  the prompt \<open>Q\<close>), two triples, and a process whose heap holds a list of five triples and
  an empty list.
\<close>

definition categorize_by_flag :: "EvalSample \<Rightarrow> string" where
  "categorize_by_flag s = (if is_correct s then ''TP'' else ''FP'')"

definition mk_sample :: "int \<Rightarrow> string \<Rightarrow> string \<Rightarrow> string \<Rightarrow> bool \<Rightarrow> EvalSample" where
  "mk_sample i p r a c =
     \<lparr>sample_id = PInt i, prompt = p, reasoning = r, answer = a, target = ''1'',
      is_correct = c, evaluator_model = ''qwen-3.0-80b-thinking'',
      generator_model = ''generator'', dataset = ''wikisum'', experiment_tag = ''exp''\<rparr>"

definition sample_1 :: EvalSample where "sample_1 = mk_sample 1 ''P'' ''R'' ''1'' True"
definition sample_2 :: EvalSample where "sample_2 = mk_sample 2 ''P'' [] ''1'' True"
definition sample_3 :: EvalSample where "sample_3 = mk_sample 3 ''P'' ''S'' ''2'' False"
definition sample_4 :: EvalSample where "sample_4 = mk_sample 4 ''P'' [] ''2'' False"
definition sample_q :: EvalSample where "sample_q = mk_sample 5 ''Q'' [] ''1'' True"

definition triple_a :: DPOTriple where
  "triple_a = \<lparr>prompt = ''P'', chosen = ''1'', rejected = ''2'',
               metadata = [(''dataset'', PStr ''wikisum'')]\<rparr>"

definition triple_b :: DPOTriple where
  "triple_b = \<lparr>prompt = ''Q'', chosen = ''yes'', rejected = ''no'',
               metadata = [(''prompt_mismatch'', PBool False)]\<rparr>"

definition example_process :: "(DPOTriple, nat) process" where
  "example_process =
     \<lparr>heap_lists = [[triple_a, triple_b, triple_a, triple_b, triple_a], [], [triple_a, triple_b]],
      random_state = 1\<rparr>"


section \<open>Properties\<close>

subsection \<open>The pairing loops\<close>

lemma categorize_loop_filter:
  "categorize_loop cat samples (cs, ics) =
     (cs @ filter (\<lambda>s. cat s = ''TP'' \<or> cat s = ''TN'') samples,
      ics @ filter (\<lambda>s. \<not> (cat s = ''TP'' \<or> cat s = ''TN'')) samples)"
  by (induction samples arbitrary: cs ics) simp_all

lemma incorrect_loop_map: "incorrect_loop mk ics triples = triples @ map mk ics"
  by (induction ics arbitrary: triples) simp_all

lemma correct_loop_concat:
  "correct_loop mk cs ics triples = triples @ concat (map (\<lambda>c. map (mk c) ics) cs)"
  by (induction cs arbitrary: triples) (simp_all add: incorrect_loop_map)

lemma dd_getitem_append:
  "dd_getitem (dd_append d k v) k' =
     (if k' = k then dd_getitem d k @ [v] else dd_getitem d k')"
  by (induction d) (auto simp: dd_getitem_def)

lemma keys_dd_append:
  "map fst (dd_append d k v) =
     (if k \<in> fst ` set d then map fst d else map fst d @ [k])"
  by (induction d) force+

lemma set_keys_dd_append: "fst ` set (dd_append d k v) = insert k (fst ` set d)"
  by (induction d) force+

lemma distinct_dd_append:
  "distinct (map fst d) \<Longrightarrow> distinct (map fst (dd_append d k v))"
  by (simp add: keys_dd_append)

lemma dd_getitem_Nil: "dd_getitem [] p = []"
  by (simp add: dd_getitem_def)

lemma dd_getitem_group_loop:
  "dd_getitem (group_loop ss d) p =
     dd_getitem d p @ filter (\<lambda>s. EvalSample.prompt s = p) ss"
  by (induction ss arbitrary: d) (auto simp: dd_getitem_append)

lemma keys_group_loop:
  "fst ` set (group_loop ss d) = fst ` set d \<union> EvalSample.prompt ` set ss"
  by (induction ss arbitrary: d) (simp_all add: set_keys_dd_append)

lemma distinct_group_loop:
  "distinct (map fst d) \<Longrightarrow> distinct (map fst (group_loop ss d))"
  by (induction ss arbitrary: d) (simp_all add: distinct_dd_append)

lemma prompt_loop_concat:
  "prompt_loop cat ir cbp ibp keys triples =
     triples @ concat (map (\<lambda>p. if dd_contains ibp p
        then concat (map (\<lambda>c. map (same_prompt_triple cat ir p c) (dd_getitem ibp p))
               (dd_getitem cbp p))
        else []) keys)"
  by (induction keys arbitrary: triples) (simp_all add: correct_loop_concat)

lemma filter_concat_blocks:
  assumes "distinct keys" and "\<And>q t. t \<in> set (f q) \<Longrightarrow> tag t = q"
  shows "filter (\<lambda>t. tag t = p) (concat (map f keys)) = (if p \<in> set keys then f p else [])"
  using assms(1)
proof (induction keys)
  case Nil
  then show ?case by simp
next
  case (Cons q keys)
  have same: "filter (\<lambda>t. tag t = p) (f p) = f p"
    using assms(2) by (simp add: filter_id_conv)
  have other: "filter (\<lambda>t. tag t = p) (f q) = []" if "q \<noteq> p"
    using assms(2) that by (auto simp: filter_empty_conv)
  show ?case
  proof (cases "q = p")
    case True
    with Cons show ?thesis by (simp add: same)
  next
    case False
    with Cons show ?thesis by (simp add: other)
  qed
qed

lemma filter_prompt_empty:
  "p \<notin> EvalSample.prompt ` set ss \<Longrightarrow> filter (\<lambda>s. EvalSample.prompt s = p) ss = []"
  by (auto simp: filter_empty_conv)

lemma create_same_prompt_eq:
  "create_dpo_triples cat samples ir True =
     (let cs = filter (\<lambda>s. cat s = ''TP'' \<or> cat s = ''TN'') samples;
          ics = filter (\<lambda>s. \<not> (cat s = ''TP'' \<or> cat s = ''TN'')) samples
      in concat (map (\<lambda>p. if p \<in> EvalSample.prompt ` set ics
           then concat (map (\<lambda>c. map (same_prompt_triple cat ir p c)
                                  (filter (\<lambda>s. EvalSample.prompt s = p) ics))
                  (filter (\<lambda>s. EvalSample.prompt s = p) cs))
           else []) (map fst (group_loop cs []))))"
  by (simp add: create_dpo_triples_def categorize_loop_filter prompt_loop_concat Let_def
        dd_contains_def keys_group_loop dd_getitem_group_loop dd_getitem_Nil
      cong del: if_weak_cong)

lemma create_cross_eq:
  "create_dpo_triples cat samples ir False =
     concat (map (\<lambda>c. map (cross_triple cat ir c)
                        (filter (\<lambda>s. \<not> (cat s = ''TP'' \<or> cat s = ''TN'')) samples))
              (filter (\<lambda>s. cat s = ''TP'' \<or> cat s = ''TN'') samples))"
  by (simp add: create_dpo_triples_def categorize_loop_filter correct_loop_concat)

lemma filter_same_prompt:
  "filter (\<lambda>t. DPOTriple.prompt t = p) (create_dpo_triples cat samples ir True) =
     concat (map (\<lambda>c. map (same_prompt_triple cat ir p c)
               (filter (\<lambda>s. EvalSample.prompt s = p)
                  (filter (\<lambda>s. \<not> (cat s = ''TP'' \<or> cat s = ''TN'')) samples)))
            (filter (\<lambda>s. EvalSample.prompt s = p)
               (filter (\<lambda>s. cat s = ''TP'' \<or> cat s = ''TN'') samples)))"
proof -
  let ?cs = "filter (\<lambda>s. cat s = ''TP'' \<or> cat s = ''TN'') samples"
  let ?ics = "filter (\<lambda>s. \<not> (cat s = ''TP'' \<or> cat s = ''TN'')) samples"
  let ?block = "\<lambda>p. if p \<in> EvalSample.prompt ` set ?ics
           then concat (map (\<lambda>c. map (same_prompt_triple cat ir p c)
                                  (filter (\<lambda>s. EvalSample.prompt s = p) ?ics))
                  (filter (\<lambda>s. EvalSample.prompt s = p) ?cs))
           else []"
  let ?keys = "map fst (group_loop ?cs [])"
  have d: "distinct ?keys" by (rule distinct_group_loop) simp
  have tag: "DPOTriple.prompt t = q" if "t \<in> set (?block q)" for q t
    using that by (auto simp: same_prompt_triple_def split: if_splits)
  have "filter (\<lambda>t. DPOTriple.prompt t = p) (create_dpo_triples cat samples ir True) =
          (if p \<in> set ?keys then ?block p else [])"
    unfolding create_same_prompt_eq Let_def
    by (rule filter_concat_blocks [OF d tag])
  also have "\<dots> = concat (map (\<lambda>c. map (same_prompt_triple cat ir p c)
                                  (filter (\<lambda>s. EvalSample.prompt s = p) ?ics))
                  (filter (\<lambda>s. EvalSample.prompt s = p) ?cs))"
  proof (cases "p \<in> set ?keys")
    case True
    show ?thesis
    proof (cases "p \<in> EvalSample.prompt ` set ?ics")
      case True
      with \<open>p \<in> set ?keys\<close> show ?thesis by simp
    next
      case False
      then have "filter (\<lambda>s. EvalSample.prompt s = p) ?ics = []"
        by (rule filter_prompt_empty)
      with False \<open>p \<in> set ?keys\<close> show ?thesis by simp
    qed
  next
    case False
    then have "p \<notin> EvalSample.prompt ` set ?cs"
      by (simp add: keys_group_loop)
    then have "filter (\<lambda>s. EvalSample.prompt s = p) ?cs = []"
      by (rule filter_prompt_empty)
    with False show ?thesis by simp
  qed
  finally show ?thesis .
qed

lemma length_concat_map_map:
  "length (concat (map (\<lambda>c. map (f c) ys) xs)) = length xs * length ys"
  by (induction xs) simp_all

lemma with_prompt_absent:
  "p \<notin> EvalSample.prompt ` set ss \<Longrightarrow> with_prompt p ss = []"
  by (simp add: with_prompt_def filter_prompt_empty)

lemma filter_tags_empty:
  assumes "\<And>p. filter (\<lambda>t. tag t = p) xs = []"
  shows "xs = []"
proof (cases xs)
  case Nil
  then show ?thesis .
next
  case (Cons x xs')
  with assms [of "tag x"] show ?thesis by simp
qed

lemma concat_map_map_empty:
  "xs = [] \<or> ys = [] \<Longrightarrow> concat (map (\<lambda>c. map (f c) ys) xs) = []"
  by (induction xs) auto

lemma triples_of_prompt:
  "filter (\<lambda>t. DPOTriple.prompt t = p)
       (create_dpo_triples categorize_sample samples include_reasoning True) =
     concat (map (\<lambda>c. map (same_prompt_triple categorize_sample include_reasoning p c)
                         (with_prompt p (unacceptable categorize_sample samples)))
               (with_prompt p (acceptable categorize_sample samples)))"
  unfolding with_prompt_def acceptable_def unacceptable_def by (rule filter_same_prompt)

subsection \<open>Claims about the formatter\<close>

text \<open>
  C7. \<open>format_response\<close> returns the reasoning, two newline characters, the label
  \<open>Answer: \<close> and the answer when reasoning is asked for and the sample's reasoning is not
  empty, and the answer as it is otherwise. It is a function of the flag and of the
  sample's reasoning and answer alone: two samples that agree on these give the same text.
\<close>

theorem format_response_spec:
  "(include_reasoning \<and> reasoning sample \<noteq> [] \<longrightarrow>
      format_response sample include_reasoning =
        reasoning sample @ [CHR 0x0A, CHR 0x0A] @ ''Answer: '' @ answer sample)
   \<and> (\<not> (include_reasoning \<and> reasoning sample \<noteq> []) \<longrightarrow>
      format_response sample include_reasoning = answer sample)
   \<and> (reasoning sample = reasoning sample' \<and> answer sample = answer sample' \<longrightarrow>
      format_response sample include_reasoning = format_response sample' include_reasoning)"
  by (simp add: format_response_def newline_def)

theorem format_response_spec_witness:
  "(True \<and> reasoning (mk_sample 1 ''P'' ''R'' ''42'' True) \<noteq> [])
   \<and> format_response (mk_sample 1 ''P'' ''R'' ''42'' True) True =
       ''R'' @ [CHR 0x0A, CHR 0x0A] @ ''Answer: 42''
   \<and> \<not> (True \<and> reasoning (mk_sample 1 ''P'' [] ''42'' True) \<noteq> [])
   \<and> format_response (mk_sample 1 ''P'' [] ''42'' True) True = ''42''
   \<and> \<not> (False \<and> reasoning (mk_sample 1 ''P'' ''R'' ''42'' True) \<noteq> [])
   \<and> format_response (mk_sample 1 ''P'' ''R'' ''42'' True) False = ''42''
   \<and> reasoning (mk_sample 1 ''P'' ''R'' ''42'' True) =
       reasoning (mk_sample 2 ''Q'' ''R'' ''42'' False)
   \<and> answer (mk_sample 1 ''P'' ''R'' ''42'' True) = answer (mk_sample 2 ''Q'' ''R'' ''42'' False)
   \<and> format_response (mk_sample 1 ''P'' ''R'' ''42'' True) True =
       format_response (mk_sample 2 ''Q'' ''R'' ''42'' False) True"
proof -
  have r1: "reasoning (mk_sample 1 ''P'' ''R'' ''42'' True) = ''R''"
    and r2: "reasoning (mk_sample 1 ''P'' [] ''42'' True) = []"
    and r3: "reasoning (mk_sample 2 ''Q'' ''R'' ''42'' False) = ''R''"
    and a1: "answer (mk_sample 1 ''P'' ''R'' ''42'' True) = ''42''"
    and a2: "answer (mk_sample 1 ''P'' [] ''42'' True) = ''42''"
    and a3: "answer (mk_sample 2 ''Q'' ''R'' ''42'' False) = ''42''"
    by (simp_all add: mk_sample_def)
  note i1 = format_response_spec [where include_reasoning = True
      and sample = "mk_sample 1 ''P'' ''R'' ''42'' True"
      and sample' = "mk_sample 2 ''Q'' ''R'' ''42'' False"]
  note i2 = format_response_spec [where include_reasoning = True
      and sample = "mk_sample 1 ''P'' [] ''42'' True"
      and sample' = "mk_sample 1 ''P'' [] ''42'' True"]
  note i3 = format_response_spec [where include_reasoning = False
      and sample = "mk_sample 1 ''P'' ''R'' ''42'' True"
      and sample' = "mk_sample 1 ''P'' ''R'' ''42'' True"]
  show ?thesis
    using i1 i2 i3 unfolding r1 r2 r3 a1 a2 a3 by auto
qed

subsection \<open>Claims about the pairing\<close>

text \<open>
  C1. In same-prompt mode the triples of a prompt \<open>p\<close>, in the order they stand in the
  result, are the triples of the pairs of an acceptable and an unacceptable sample that
  carry \<open>p\<close>, the acceptable samples in their input order and, for each, the unacceptable
  ones in theirs. With \<open>a\<close> acceptable and \<open>b\<close> unacceptable samples on \<open>p\<close> these are
  \<open>a * b\<close> triples, and none when \<open>p\<close> is the prompt of no acceptable or of no
  unacceptable sample.
\<close>

theorem same_prompt_cross_product:
  "filter (\<lambda>t. DPOTriple.prompt t = p)
       (create_dpo_triples categorize_sample samples include_reasoning True) =
     concat (map (\<lambda>c. map (same_prompt_triple categorize_sample include_reasoning p c)
                         (with_prompt p (unacceptable categorize_sample samples)))
               (with_prompt p (acceptable categorize_sample samples)))
   \<and> length (filter (\<lambda>t. DPOTriple.prompt t = p)
       (create_dpo_triples categorize_sample samples include_reasoning True)) =
     length (with_prompt p (acceptable categorize_sample samples)) *
     length (with_prompt p (unacceptable categorize_sample samples))
   \<and> (p \<notin> EvalSample.prompt ` set (acceptable categorize_sample samples) \<or>
      p \<notin> EvalSample.prompt ` set (unacceptable categorize_sample samples) \<longrightarrow>
      filter (\<lambda>t. DPOTriple.prompt t = p)
        (create_dpo_triples categorize_sample samples include_reasoning True) = [])"
proof -
  let ?ts = "filter (\<lambda>t. DPOTriple.prompt t = p)
       (create_dpo_triples categorize_sample samples include_reasoning True)"
  let ?a = "with_prompt p (acceptable categorize_sample samples)"
  let ?b = "with_prompt p (unacceptable categorize_sample samples)"
  have eq: "?ts = concat (map (\<lambda>c. map (same_prompt_triple categorize_sample
                include_reasoning p c) ?b) ?a)"
    by (rule triples_of_prompt)
  have len: "length ?ts = length ?a * length ?b"
    unfolding eq by (rule length_concat_map_map)
  have none: "?ts = []"
    if "p \<notin> EvalSample.prompt ` set (acceptable categorize_sample samples) \<or>
        p \<notin> EvalSample.prompt ` set (unacceptable categorize_sample samples)"
  proof -
    from that have "?a = [] \<or> ?b = []" by (auto dest: with_prompt_absent)
    with len have "length ?ts = 0" by auto
    then show ?thesis by simp
  qed
  from eq len none show ?thesis by blast
qed

theorem same_prompt_cross_product_witness:
  "length (filter (\<lambda>t. DPOTriple.prompt t = ''P'')
       (create_dpo_triples categorize_by_flag [sample_1, sample_3, sample_q, sample_2, sample_4]
          True True)) = 4
   \<and> map (\<lambda>t. (chosen t, rejected t)) (filter (\<lambda>t. DPOTriple.prompt t = ''P'')
       (create_dpo_triples categorize_by_flag [sample_1, sample_3, sample_q, sample_2, sample_4]
          True True)) =
      [(format_response sample_1 True, format_response sample_3 True),
       (format_response sample_1 True, format_response sample_4 True),
       (format_response sample_2 True, format_response sample_3 True),
       (format_response sample_2 True, format_response sample_4 True)]
   \<and> ''Q'' \<notin> EvalSample.prompt `
         set (unacceptable categorize_by_flag [sample_1, sample_3, sample_q, sample_2, sample_4])
   \<and> filter (\<lambda>t. DPOTriple.prompt t = ''Q'')
       (create_dpo_triples categorize_by_flag [sample_1, sample_3, sample_q, sample_2, sample_4]
          True True) = []"
  using same_prompt_cross_product [of "''P''" categorize_by_flag
          "[sample_1, sample_3, sample_q, sample_2, sample_4]" True]
        same_prompt_cross_product [of "''Q''" categorize_by_flag
          "[sample_1, sample_3, sample_q, sample_2, sample_4]" True]
  by (simp add: acceptable_def unacceptable_def with_prompt_def categorize_by_flag_def
        sample_1_def sample_2_def sample_3_def sample_4_def sample_q_def mk_sample_def
        same_prompt_triple_def)

text \<open>
  C6. In cross mode the result is the triple of every pair of an acceptable and an
  unacceptable sample, whatever their prompts: the acceptable samples in input order and,
  for each, every unacceptable sample in input order. The prompt of each triple is the
  prompt of the acceptable sample of its pair, and its metadata holds under
  \<open>prompt_mismatch\<close> the flag that is true exactly when the two prompts differ.
\<close>

theorem cross_mode_full_product:
  "create_dpo_triples categorize_sample samples include_reasoning False =
     map (\<lambda>(c, i). cross_triple categorize_sample include_reasoning c i)
       (List.product (acceptable categorize_sample samples)
                     (unacceptable categorize_sample samples))
   \<and> map (\<lambda>t. (DPOTriple.prompt t, map_of (metadata t) ''prompt_mismatch''))
       (create_dpo_triples categorize_sample samples include_reasoning False) =
     map (\<lambda>(c, i). (EvalSample.prompt c,
                     Some (PBool (EvalSample.prompt c \<noteq> EvalSample.prompt i))))
       (List.product (acceptable categorize_sample samples)
                     (unacceptable categorize_sample samples))
   \<and> length (create_dpo_triples categorize_sample samples include_reasoning False) =
     length (acceptable categorize_sample samples) *
     length (unacceptable categorize_sample samples)"
proof -
  have prod: "concat (map (\<lambda>c. map (f c) ys) xs) = map (\<lambda>(c, i). f c i) (List.product xs ys)"
    for f :: "EvalSample \<Rightarrow> EvalSample \<Rightarrow> DPOTriple" and xs ys
    by (induction xs) (simp_all add: comp_def)
  have 1: "create_dpo_triples categorize_sample samples include_reasoning False =
     map (\<lambda>(c, i). cross_triple categorize_sample include_reasoning c i)
       (List.product (acceptable categorize_sample samples)
                     (unacceptable categorize_sample samples))"
    by (simp only: create_cross_eq prod acceptable_def unacceptable_def)
  have 2: "map (\<lambda>t. (DPOTriple.prompt t, map_of (metadata t) ''prompt_mismatch''))
       (create_dpo_triples categorize_sample samples include_reasoning False) =
     map (\<lambda>(c, i). (EvalSample.prompt c,
                     Some (PBool (EvalSample.prompt c \<noteq> EvalSample.prompt i))))
       (List.product (acceptable categorize_sample samples)
                     (unacceptable categorize_sample samples))"
    unfolding 1 by (simp add: cross_triple_def split_def comp_def)
  have 3: "length (create_dpo_triples categorize_sample samples include_reasoning False) =
     length (acceptable categorize_sample samples) *
     length (unacceptable categorize_sample samples)"
    unfolding 1 by simp
  from 1 2 3 show ?thesis by blast
qed

text \<open>
  C8. \<open>create_dpo_triples\<close> is a total function of its arguments, with no failing branch,
  and its degenerate inputs give the empty list: no acceptable sample, or no unacceptable
  sample, in either mode; and, in same-prompt mode, no prompt carried by both an
  acceptable and an unacceptable sample.
\<close>

theorem create_dpo_triples_degenerate:
  "(acceptable categorize_sample samples = [] \<longrightarrow>
      create_dpo_triples categorize_sample samples include_reasoning require_same_prompt = [])
   \<and> (unacceptable categorize_sample samples = [] \<longrightarrow>
      create_dpo_triples categorize_sample samples include_reasoning require_same_prompt = [])
   \<and> (EvalSample.prompt ` set (acceptable categorize_sample samples) \<inter>
      EvalSample.prompt ` set (unacceptable categorize_sample samples) = {} \<longrightarrow>
      create_dpo_triples categorize_sample samples include_reasoning True = [])"
proof -
  let ?a = "acceptable categorize_sample samples"
  let ?b = "unacceptable categorize_sample samples"
  have same: "create_dpo_triples categorize_sample samples include_reasoning True = []"
    if "\<And>p. with_prompt p ?a = [] \<or> with_prompt p ?b = []"
  proof (rule filter_tags_empty [where tag = DPOTriple.prompt])
    fix p
    show "filter (\<lambda>t. DPOTriple.prompt t = p)
            (create_dpo_triples categorize_sample samples include_reasoning True) = []"
      unfolding triples_of_prompt using that [of p] by (rule concat_map_map_empty)
  qed
  have cross: "create_dpo_triples categorize_sample samples include_reasoning False = []"
    if "?a = [] \<or> ?b = []"
    unfolding create_cross_eq using that [unfolded acceptable_def unacceptable_def]
    by (rule concat_map_map_empty)
  have 1: "create_dpo_triples categorize_sample samples include_reasoning
             require_same_prompt = []" if "?a = []"
  proof (cases require_same_prompt)
    case True
    from that have "with_prompt p ?a = []" for p by (simp add: with_prompt_def)
    with True same show ?thesis by simp
  next
    case False
    with that cross show ?thesis by simp
  qed
  have 2: "create_dpo_triples categorize_sample samples include_reasoning
             require_same_prompt = []" if "?b = []"
  proof (cases require_same_prompt)
    case True
    from that have "with_prompt p ?b = []" for p by (simp add: with_prompt_def)
    with True same show ?thesis by simp
  next
    case False
    with that cross show ?thesis by simp
  qed
  have 3: "create_dpo_triples categorize_sample samples include_reasoning True = []"
    if "EvalSample.prompt ` set ?a \<inter> EvalSample.prompt ` set ?b = {}"
  proof (rule same)
    fix p
    from that have "p \<notin> EvalSample.prompt ` set ?a \<or> p \<notin> EvalSample.prompt ` set ?b"
      by blast
    then show "with_prompt p ?a = [] \<or> with_prompt p ?b = []"
      by (auto dest: with_prompt_absent)
  qed
  from 1 2 3 show ?thesis by blast
qed

theorem create_dpo_triples_degenerate_witness:
  "acceptable categorize_by_flag [sample_3, sample_4] = []
   \<and> create_dpo_triples categorize_by_flag [sample_3, sample_4] True True = []
   \<and> create_dpo_triples categorize_by_flag [sample_3, sample_4] True False = []
   \<and> unacceptable categorize_by_flag [sample_1, sample_q] = []
   \<and> create_dpo_triples categorize_by_flag [sample_1, sample_q] True True = []
   \<and> create_dpo_triples categorize_by_flag [sample_1, sample_q] True False = []
   \<and> create_dpo_triples categorize_by_flag [] True True = []
   \<and> EvalSample.prompt ` set (acceptable categorize_by_flag [sample_q, sample_3]) \<inter>
      EvalSample.prompt ` set (unacceptable categorize_by_flag [sample_q, sample_3]) = {}
   \<and> create_dpo_triples categorize_by_flag [sample_q, sample_3] True True = []"
proof -
  have a: "acceptable categorize_by_flag [sample_3, sample_4] = []"
    by (simp add: acceptable_def categorize_by_flag_def sample_3_def sample_4_def mk_sample_def)
  have b: "unacceptable categorize_by_flag [sample_1, sample_q] = []"
    by (simp add: unacceptable_def categorize_by_flag_def sample_1_def sample_q_def
          mk_sample_def)
  have e: "acceptable categorize_by_flag [] = []"
    by (simp add: acceptable_def)
  have c: "EvalSample.prompt ` set (acceptable categorize_by_flag [sample_q, sample_3]) \<inter>
      EvalSample.prompt ` set (unacceptable categorize_by_flag [sample_q, sample_3]) = {}"
    by (simp add: acceptable_def unacceptable_def categorize_by_flag_def sample_3_def
          sample_q_def mk_sample_def)
  show ?thesis
    using a b c e
      create_dpo_triples_degenerate [of categorize_by_flag "[sample_3, sample_4]" True True]
      create_dpo_triples_degenerate [of categorize_by_flag "[sample_3, sample_4]" True False]
      create_dpo_triples_degenerate [of categorize_by_flag "[sample_1, sample_q]" True True]
      create_dpo_triples_degenerate [of categorize_by_flag "[sample_1, sample_q]" True False]
      create_dpo_triples_degenerate [of categorize_by_flag "[]" True True]
      create_dpo_triples_degenerate [of categorize_by_flag "[sample_q, sample_3]" True True]
    by blast
qed

subsection \<open>The shuffle and the split\<close>



lemma randbelow_less: "0 < n \<Longrightarrow> fst (randbelow R g n) < n"
  by (simp add: randbelow_def)

lemma mset_shuffle_loop: "k < length x \<Longrightarrow> mset (fst (shuffle_loop R k x g)) = mset x"
proof (induction k arbitrary: x g)
  case 0
  then show ?case by simp
next
  case (Suc k)
  let ?j = "fst (randbelow R g (Suc k + 1))"
  let ?x = "(x[Suc k := x ! ?j])[?j := x ! Suc k]"
  have "?j < Suc k + 1" by (rule randbelow_less) simp
  with Suc.prems have j: "?j < length x" by simp
  have "mset ?x = mset x" using Suc.prems j by (simp add: mset_swap)
  moreover have "k < length ?x" using Suc.prems by simp
  ultimately show ?case using Suc.IH [of ?x "snd (randbelow R g (Suc k + 1))"]
    by (simp add: split_def Let_def)
qed

lemma mset_shuffle: "mset (fst (shuffle R x g)) = mset x"
proof (cases x)
  case Nil
  then show ?thesis by (simp add: shuffle_def)
next
  case (Cons a as)
  then show ?thesis by (simp add: shuffle_def mset_shuffle_loop)
qed

lemma slice_to_from: "slice_to k xs @ slice_from k xs = xs"
  by (simp add: slice_to_def slice_from_def)

lemma split_triples_eq:
  "split_triples R float_mul triples train_ratio val_ratio seed w =
     (let g0 = (case seed of None \<Rightarrow> random_state w | Some n \<Rightarrow> seed_state R n);
          x' = fst (shuffle R (deref w triples) g0);
          g' = snd (shuffle R (deref w triples) g0);
          n = py_int (float_mul (length x') train_ratio)
      in ((slice_to n x', slice_from n x'),
          \<lparr>heap_lists = heap_lists w @ [x'], random_state = g'\<rparr>))"
  by (cases seed)
     (simp_all add: split_triples_def list_copy_def random_shuffle_def deref_def split_def Let_def)

subsection \<open>Claims about the splitter\<close>



text \<open>
  C4. The parameter \<open>val_ratio\<close> has no effect: two calls that differ in it alone return
  the same pair of sets (and leave the same process behind).
\<close>

theorem val_ratio_irrelevant:
  "split_triples R float_mul triples train_ratio v1 seed w = split_triples R float_mul triples train_ratio v2 seed w"
  by (simp add: split_triples_def)

text \<open>
  C5. With a seed that is not \<open>None\<close> the result is a function of the elements of the
  input list, the ratio and the seed: two calls on lists with the same elements, with the
  same ratio and the same seed, return the same pair of sets, whatever the state of the
  process each call starts in.
\<close>

theorem split_deterministic_within_seed:
  assumes "deref w triples = deref w' triples'"
  shows "fst (split_triples R float_mul triples train_ratio val_ratio (Some n) w) =
         fst (split_triples R float_mul triples' train_ratio val_ratio' (Some n) w')"
  using assms by (simp add: split_triples_eq Let_def)

theorem split_deterministic_within_seed_witness:
  "deref example_process 0 =
     deref (snd (split_triples lcg exact_mul 0 (3 / 4) (1 / 4) (Some 42) example_process)) 0
   \<and> fst (split_triples lcg exact_mul 0 (3 / 4) (1 / 4) (Some 42) example_process) =
     fst (split_triples lcg exact_mul 0 (3 / 4) (1 / 4) (Some 42)
            (snd (split_triples lcg exact_mul 0 (3 / 4) (1 / 4) (Some 42) example_process)))"
proof -
  have h: "deref example_process 0 =
     deref (snd (split_triples lcg exact_mul 0 (3 / 4) (1 / 4) (Some 42) example_process)) 0"
    by (simp add: split_triples_eq Let_def deref_def example_process_def)
  from h split_deterministic_within_seed [OF h] show ?thesis by blast
qed

text \<open>
  C10. The training set followed by the validation set is a rearrangement of the input
  list (the same elements, each as often), and the list object the caller passed holds
  after the call what it held before: the shuffle works on a copy.
\<close>

theorem split_preserves_content:
  assumes "triples < length (heap_lists w)"
  shows "mset (fst (fst (split_triples R float_mul triples train_ratio val_ratio seed w)) @
               snd (fst (split_triples R float_mul triples train_ratio val_ratio seed w))) =
           mset (deref w triples)
       \<and> deref (snd (split_triples R float_mul triples train_ratio val_ratio seed w)) triples =
           deref w triples"
  using assms
  by (simp add: split_triples_eq Let_def slice_to_from mset_shuffle deref_def nth_append
           del: mset_append)

theorem split_preserves_content_witness:
  "(0::nat) < length (heap_lists example_process)
   \<and> mset (fst (fst (split_triples lcg exact_mul 0 (3 / 4) (1 / 4) (Some 42) example_process)) @
           snd (fst (split_triples lcg exact_mul 0 (3 / 4) (1 / 4) (Some 42) example_process))) =
       mset [triple_a, triple_b, triple_a, triple_b, triple_a]
   \<and> deref (snd (split_triples lcg exact_mul 0 (3 / 4) (1 / 4) (Some 42) example_process)) 0 =
       [triple_a, triple_b, triple_a, triple_b, triple_a]"
proof -
  have h: "(0::nat) < length (heap_lists example_process)"
    by (simp add: example_process_def)
  have d: "deref example_process 0 = [triple_a, triple_b, triple_a, triple_b, triple_a]"
    by (simp add: example_process_def deref_def)
  from h split_preserves_content [OF h, of lcg exact_mul "3 / 4" "1 / 4" "Some 42"]
  show ?thesis unfolding d by blast
qed

text \<open>
  C2, as the code has it. \<open>split_triples\<close> draws from the generator of the module
  \<open>random\<close>, which the whole process shares: a seed that is not \<open>None\<close> first overwrites
  the state of that generator, with \<open>None\<close> the shuffle starts from the state it finds,
  and the call leaves the generator in the state the shuffle reached. The two returned
  sets are the two parts of that shuffle. Of the heap the call changes nothing that
  existed before it.
\<close>

theorem split_uses_process_generator:
  "random_state (snd (split_triples R float_mul triples train_ratio val_ratio seed w)) =
     snd (shuffle R (deref w triples)
            (case seed of None \<Rightarrow> random_state w | Some n \<Rightarrow> seed_state R n))
   \<and> fst (fst (split_triples R float_mul triples train_ratio val_ratio seed w)) @
     snd (fst (split_triples R float_mul triples train_ratio val_ratio seed w)) =
     fst (shuffle R (deref w triples)
            (case seed of None \<Rightarrow> random_state w | Some n \<Rightarrow> seed_state R n))
   \<and> take (length (heap_lists w))
       (heap_lists (snd (split_triples R float_mul triples train_ratio val_ratio seed w))) = heap_lists w"
  by (simp add: split_triples_eq Let_def slice_to_from)

text \<open>
  C2, as the spec states it, fails. A call with seed 3 on the two-element list of the
  example process leaves the shared generator in another state than it found; and two
  calls with seed \<open>None\<close> that differ only in the state of the shared generator return
  different sets.
\<close>

theorem split_local_generator_counterexample:
  "random_state (snd (split_triples lcg exact_mul 2 (1 / 2) (1 / 2) (Some 3) example_process)) \<noteq>
     random_state example_process
   \<and> fst (split_triples lcg exact_mul 2 (1 / 2) (1 / 2) None (example_process\<lparr>random_state := 0\<rparr>)) \<noteq>
     fst (split_triples lcg exact_mul 2 (1 / 2) (1 / 2) None (example_process\<lparr>random_state := 1\<rparr>))"
  by code_simp

subsection \<open>Writing and reading JSON lines\<close>













subsection \<open>The JSON codec\<close>



lemma char_of_hex_parts: "char_of (16 * (of_char c div 16) + of_char c mod 16 :: nat) = c"
  by simp





























subsection \<open>Claim about the serializer\<close>



end
